theory Spec2Isabelle
  imports Main "HOL-Library.AList" "HOL-Library.Char_ord" "HOL-Library.List_Lexorder"
begin

section \<open>The realtime connection manager of \<open>src/hooks/usewebsocket.js\<close>\<close>

text \<open>
  The hook \<open>useWebSocket\<close> is a function that React calls once per render. Each call
  binds fresh constants (\<open>isConnected\<close>, \<open>isConnecting\<close>, \<open>pendingEmits\<close>, ...) to the
  values React holds at that moment, and the callbacks built inside the call read those
  constants for as long as they live. A state setter never changes a constant that an
  existing callback has closed over; it changes what the next render will see. The
  model keeps the two apart:

  \<^item> \<open>state w\<close> is the latest React state: every setter call is applied to it at once,
    in call order (updater functions receive the latest value, as in React); the
    updaters of \<open>setEventListeners\<close>, which change shared Set objects, are queued and
    run when the component next renders;
  \<^item> \<open>renders w\<close> lists, per render, the values that render's constants were bound to
    (a \<open>scope\<close>), together with the render in which each memoised callback
    (\<open>useCallback\<close>) bound in that render was created;
  \<^item> a callback is named by the index of the render that created it, and reads its
    free variables from that render's scope;
  \<^item> refs (\<open>socketRef\<close>, \<open>pingIntervalRef\<close>, \<open>reconnectTimeoutRef\<close>) are mutable cells
    and are always read live.

  The transport (socket.io), the browser timers, the clock, \<open>crypto.randomUUID\<close>, the
  notification and telemetry sinks and the consumers' own callbacks are outside the
  file. They appear as data: a store of socket objects, a table of active timers, a
  clock value, a stream of identifiers, and logs of what was handed to each sink.
\<close>

subsection \<open>Values\<close>

datatype jsval = JNum int | JStr string | JBool bool

type_synonym payload = "(string \<times> jsval) list"

text \<open>
  A listener function. \<open>Handler h\<close> is a consumer's function with identity \<open>h\<close>;
  \<open>Logging k f\<close> is the closure \<open>handlerWithLogging\<close> that the \<open>k\<close>-th call of \<open>on\<close>
  built around \<open>f\<close>; \<open>Core c\<close> stands for the lifecycle listeners that the call of
  \<open>connect\<close> created in render \<open>c\<close> registered on its socket.
\<close>

datatype listener = Core nat | Handler nat | Logging nat listener

datatype sock_event =
    Connect
  | Disconnect string
  | ConnectError string
  | Reconnect nat
  | ReconnectAttempt nat
  | ReconnectFailed
  | Pong
  | Message string payload

fun event_name :: "sock_event \<Rightarrow> string" where
  "event_name Connect = ''connect''"
| "event_name (Disconnect reason) = ''disconnect''"
| "event_name (ConnectError msg) = ''connect_error''"
| "event_name (Reconnect n) = ''reconnect''"
| "event_name (ReconnectAttempt n) = ''reconnect_attempt''"
| "event_name ReconnectFailed = ''reconnect_failed''"
| "event_name Pong = ''pong''"
| "event_name (Message name args) = name"

text \<open>The acknowledgement function passed to \<open>socket.emit\<close>: none for the heartbeat,
  the closure around the optional consumer callback for \<open>emit\<close>.\<close>

datatype ack = NoAck | Ack "nat option"

record packet =
  p_event :: string
  p_data :: payload
  p_ack :: ack

record pending_emit =
  event :: string
  data :: payload
  callback :: "nat option"

record identity =
  user :: "nat option"
  token :: "string option"
  refreshToken :: "string option"

text \<open>The seven \<open>useState\<close> cells. \<open>eventListeners\<close> is a \<open>Map\<close> from event name to a
  \<open>Set\<close> object, given by its address in \<open>sets\<close>; the two \<open>_id\<close> fields stand for the
  object identity of the Map and of the array, which is what a dependency array
  compares.\<close>

record rstate =
  isConnected :: bool
  isConnecting :: bool
  reconnectAttempts :: nat
  connectionError :: "string option"
  lastActivity :: "nat option"
  eventListeners :: "(string \<times> nat) list"
  eventListeners_id :: nat
  pendingEmits :: "pending_emit list"
  pendingEmits_id :: nat

record scope =
  seen_auth :: identity
  seen :: rstate
  connect_cl :: nat
  processPendingEmits_cl :: nat
  emit_cl :: nat

record socket =
  connected :: bool
  closed :: bool
  opened :: bool
  handshake :: identity
  listeners :: "(string \<times> listener) list"
  sent :: "packet list"
  send_error :: "string option"

datatype timer = PingInterval | ReconnectTimeout nat | HealthCheck nat

text \<open>The updater functions that \<open>on\<close>, \<open>off\<close> and \<open>removeAllListeners\<close> pass to
  \<open>setEventListeners\<close>. They copy the Map and change Set objects in place, so it matters
  when React runs them; until then they wait in \<open>queued_updaters\<close>.\<close>

datatype updater = AddListener string listener | DeleteListener string listener | DeleteEvent string

record world =
  auth :: identity
  socketRef :: "nat option"
  reconnectTimeoutRef :: "nat option"
  pingIntervalRef :: "nat option"
  state :: rstate
  queued_updaters :: "updater list"
  sets :: "listener list list"
  sockets :: "socket list"
  renders :: "scope list"
  visibility_listener :: "nat option"
  health_interval :: "nat option"
  timers :: "(nat \<times> timer) list"
  next_timer :: nat
  now :: nat
  uuid_source :: "nat \<Rightarrow> string"
  uuids_drawn :: nat
  next_fn :: nat
  console :: "string list"
  notifications :: "(string \<times> string) list"
  tracked :: "string list"
  callback_calls :: "(nat \<times> payload) list"
  handler_calls :: "(nat \<times> sock_event) list"

subsection \<open>JavaScript truthiness\<close>

definition truthy_str :: "string option \<Rightarrow> bool" where
  "truthy_str s = (case s of None \<Rightarrow> False | Some t \<Rightarrow> t \<noteq> [])"

definition truthy_num :: "nat option \<Rightarrow> bool" where
  "truthy_num n = (case n of None \<Rightarrow> False | Some t \<Rightarrow> t \<noteq> 0)"

definition has_identity :: "identity \<Rightarrow> bool" where
  "has_identity a = (user a \<noteq> None \<and> truthy_str (token a))"

subsection \<open>Sinks, setters, timers\<close>

definition console_log :: "string \<Rightarrow> world \<Rightarrow> world" where
  "console_log msg w = w\<lparr>console := console w @ [msg]\<rparr>"

definition showNotification :: "string \<Rightarrow> string \<Rightarrow> world \<Rightarrow> world" where
  "showNotification level msg w = w\<lparr>notifications := notifications w @ [(level, msg)]\<rparr>"

definition trackEvent :: "string \<Rightarrow> world \<Rightarrow> world" where
  "trackEvent name w = w\<lparr>tracked := tracked w @ [name]\<rparr>"

definition invoke_callback :: "nat option \<Rightarrow> payload \<Rightarrow> world \<Rightarrow> world" where
  "invoke_callback cb result w =
     (case cb of None \<Rightarrow> w
      | Some k \<Rightarrow> w\<lparr>callback_calls := callback_calls w @ [(k, result)]\<rparr>)"

definition setIsConnected :: "bool \<Rightarrow> world \<Rightarrow> world" where
  "setIsConnected b w = w\<lparr>state := (state w)\<lparr>isConnected := b\<rparr>\<rparr>"

definition setIsConnecting :: "bool \<Rightarrow> world \<Rightarrow> world" where
  "setIsConnecting b w = w\<lparr>state := (state w)\<lparr>isConnecting := b\<rparr>\<rparr>"

definition setReconnectAttempts :: "nat \<Rightarrow> world \<Rightarrow> world" where
  "setReconnectAttempts n w = w\<lparr>state := (state w)\<lparr>reconnectAttempts := n\<rparr>\<rparr>"

definition setConnectionError :: "string option \<Rightarrow> world \<Rightarrow> world" where
  "setConnectionError e w = w\<lparr>state := (state w)\<lparr>connectionError := e\<rparr>\<rparr>"

definition setLastActivity :: "nat option \<Rightarrow> world \<Rightarrow> world" where
  "setLastActivity t w = w\<lparr>state := (state w)\<lparr>lastActivity := t\<rparr>\<rparr>"

definition setPendingEmits :: "(pending_emit list \<Rightarrow> pending_emit list) \<Rightarrow> world \<Rightarrow> world" where
  "setPendingEmits f w =
     w\<lparr>state := (state w)\<lparr>pendingEmits := f (pendingEmits (state w)),
                           pendingEmits_id := Suc (pendingEmits_id (state w))\<rparr>\<rparr>"

text \<open>\<open>setTimeout\<close>/\<open>setInterval\<close> hand out a fresh positive id and enter the callback in
  the table of active timers; \<open>clearTimeout\<close>/\<open>clearInterval\<close> remove it. When a timer
  fires is the environment's choice (\<open>fire_timer\<close> below).\<close>

definition set_timer :: "timer \<Rightarrow> world \<Rightarrow> nat \<times> world" where
  "set_timer k w =
     (next_timer w, w\<lparr>timers := timers w @ [(next_timer w, k)], next_timer := Suc (next_timer w)\<rparr>)"

definition clear_timer :: "nat \<Rightarrow> world \<Rightarrow> world" where
  "clear_timer i w = w\<lparr>timers := filter (\<lambda>p. fst p \<noteq> i) (timers w)\<rparr>"

definition scope_at :: "world \<Rightarrow> nat \<Rightarrow> scope option" where
  "scope_at w r = (if r < length (renders w) then Some (renders w ! r) else None)"

subsection \<open>The transport object\<close>

text \<open>What the hook uses of a socket.io socket: \<open>connected\<close>, \<open>on\<close>, \<open>off\<close>,
  \<open>removeAllListeners\<close>, \<open>connect\<close>, \<open>disconnect\<close> and \<open>emit\<close>. \<open>closed\<close> records that
  \<open>disconnect()\<close> has been called on the object: the handle is torn down.
  \<open>send_error\<close> is the environment's switch for a send that throws. Listeners are kept
  in registration order, the same function may be registered twice, and \<open>off\<close> removes
  the first registration of exactly the function it is given. Whatever the transport
  reports back, also after a \<open>disconnect()\<close> asked for by the hook, reaches the hook as
  a separate event (\<open>socket_event\<close> below).\<close>

definition update_socket :: "nat \<Rightarrow> (socket \<Rightarrow> socket) \<Rightarrow> world \<Rightarrow> world" where
  "update_socket s f w =
     (if s < length (sockets w) then w\<lparr>sockets := (sockets w)[s := f (sockets w ! s)]\<rparr> else w)"

definition sock_disconnect :: "nat \<Rightarrow> world \<Rightarrow> world" where
  "sock_disconnect s w = update_socket s (\<lambda>k. k\<lparr>connected := False, closed := True\<rparr>) w"

definition sock_connect :: "nat \<Rightarrow> world \<Rightarrow> world" where
  "sock_connect s w = update_socket s (\<lambda>k. k\<lparr>opened := True\<rparr>) w"

definition sock_on :: "nat \<Rightarrow> string \<Rightarrow> listener \<Rightarrow> world \<Rightarrow> world" where
  "sock_on s name f w = update_socket s (\<lambda>k. k\<lparr>listeners := listeners k @ [(name, f)]\<rparr>) w"

definition sock_off :: "nat \<Rightarrow> string \<Rightarrow> listener \<Rightarrow> world \<Rightarrow> world" where
  "sock_off s name f w = update_socket s (\<lambda>k. k\<lparr>listeners := remove1 (name, f) (listeners k)\<rparr>) w"

definition sock_removeAllListeners :: "nat \<Rightarrow> string \<Rightarrow> world \<Rightarrow> world" where
  "sock_removeAllListeners s name w =
     update_socket s (\<lambda>k. k\<lparr>listeners := filter (\<lambda>p. fst p \<noteq> name) (listeners k)\<rparr>) w"

definition sock_emit :: "nat \<Rightarrow> string \<Rightarrow> payload \<Rightarrow> ack \<Rightarrow> world \<Rightarrow> string + world" where
  "sock_emit s name d a w =
     (if s < length (sockets w) then
        (case send_error (sockets w ! s) of
           Some msg \<Rightarrow> Inl msg
         | None \<Rightarrow> Inr (update_socket s
                     (\<lambda>k. k\<lparr>sent := sent k @ [\<lparr>p_event = name, p_data = d, p_ack = a\<rparr>]\<rparr>) w))
      else Inl ''Cannot read properties of undefined'')"

definition socket_connected :: "world \<Rightarrow> bool" where
  "socket_connected w =
     (case socketRef w of None \<Rightarrow> False
      | Some s \<Rightarrow> s < length (sockets w) \<and> connected (sockets w ! s))"

subsection \<open>\<open>createSocket\<close>, \<open>startPingInterval\<close>, \<open>disconnect\<close>, \<open>connect\<close>\<close>

definition createSocket :: "scope \<Rightarrow> socket option" where
  "createSocket sc =
     (if \<not> has_identity (seen_auth sc) then None
      else Some \<lparr>connected = False, closed = False, opened = False,
                 handshake = seen_auth sc, listeners = [], sent = [], send_error = None\<rparr>)"

definition startPingInterval :: "world \<Rightarrow> world" where
  "startPingInterval w =
     (let w1 = (case pingIntervalRef w of None \<Rightarrow> w | Some i \<Rightarrow> clear_timer i w);
          r = set_timer PingInterval w1
      in (snd r)\<lparr>pingIntervalRef := Some (fst r)\<rparr>)"

definition disconnect :: "world \<Rightarrow> world" where
  "disconnect w =
     (let w1 = (case socketRef w of None \<Rightarrow> w
                | Some s \<Rightarrow> (sock_disconnect s w)\<lparr>socketRef := None\<rparr>);
          w2 = setConnectionError None (setIsConnecting False (setIsConnected False w1));
          w3 = (case pingIntervalRef w2 of None \<Rightarrow> w2
                | Some i \<Rightarrow> (clear_timer i w2)\<lparr>pingIntervalRef := None\<rparr>);
          w4 = (case reconnectTimeoutRef w3 of None \<Rightarrow> w3
                | Some i \<Rightarrow> (clear_timer i w3)\<lparr>reconnectTimeoutRef := None\<rparr>)
      in console_log ''WebSocket disconnected'' w4)"

text \<open>The listeners that \<open>connect\<close> registers, in the order of the source: the seven
  lifecycle listeners, then every handler of the Map the closure captured (the Sets
  are shared objects, so their members are read from the heap as it is now).\<close>

definition core_events :: "string list" where
  "core_events = [''connect'', ''disconnect'', ''connect_error'', ''reconnect'',
                  ''reconnect_attempt'', ''reconnect_failed'', ''pong'']"

definition set_at :: "world \<Rightarrow> nat \<Rightarrow> listener list" where
  "set_at w a = (if a < length (sets w) then sets w ! a else [])"

definition registry_listeners :: "world \<Rightarrow> (string \<times> nat) list \<Rightarrow> (string \<times> listener) list" where
  "registry_listeners w m = concat (map (\<lambda>p. map (\<lambda>f. (fst p, f)) (set_at w (snd p))) m)"

definition connect_teardown :: "world \<Rightarrow> world" where
  "connect_teardown w =
     (case socketRef w of None \<Rightarrow> w
      | Some s \<Rightarrow> (sock_disconnect s w)\<lparr>socketRef := None\<rparr>)"

definition connect_install :: "nat \<Rightarrow> scope \<Rightarrow> socket \<Rightarrow> world \<Rightarrow> world" where
  "connect_install c sc k w =
     (let s = length (sockets w);
          w1 = w\<lparr>sockets := sockets w @ [k], socketRef := Some s\<rparr>;
          w2 = fold (\<lambda>name. sock_on s name (Core c)) core_events w1;
          w3 = fold (\<lambda>p. sock_on s (fst p) (snd p))
                 (registry_listeners w2 (eventListeners (seen sc))) w2;
          w4 = sock_connect s w3
      in startPingInterval w4)"

definition connect_failed :: "string \<Rightarrow> world \<Rightarrow> world" where
  "connect_failed msg w =
     showNotification ''error'' ''Failed to establish connection''
       (setConnectionError (Some msg)
         (setIsConnecting False
           (console_log ''Failed to connect to WebSocket:'' w)))"

definition connect :: "nat \<Rightarrow> world \<Rightarrow> world" where
  "connect c w =
     (case scope_at w c of None \<Rightarrow> w
      | Some sc \<Rightarrow>
         if \<not> has_identity (seen_auth sc) then
           console_log ''No user or token, skipping WebSocket connection'' w
         else if socket_connected w then console_log ''Socket already connected'' w
         else if isConnecting (seen sc) then console_log ''Already connecting...'' w
         else
           (let w1 = setConnectionError None (setIsConnecting True w);
                w2 = connect_teardown w1
            in case createSocket sc of
                 None \<Rightarrow> connect_failed ''Failed to create socket'' w2
               | Some k \<Rightarrow> connect_install c sc k w2))"

subsection \<open>\<open>emit\<close> and \<open>processPendingEmits\<close>\<close>

definition queued_result :: payload where
  "queued_result = [(''error'', JStr ''Socket not connected''), (''queued'', JBool True)]"

definition emit_queue :: "scope \<Rightarrow> string \<Rightarrow> payload \<Rightarrow> nat option \<Rightarrow> world \<Rightarrow> world" where
  "emit_queue sc name d cb w =
     (let w1 = setPendingEmits (\<lambda>prev. prev @ [\<lparr>event = name, data = d, callback = cb\<rparr>]) w;
          w2 = invoke_callback cb queued_result w1
      in if \<not> isConnecting (seen sc) then connect (connect_cl sc) w2 else w2)"

text \<open>The object \<open>{...data, timestamp: Date.now(), requestId: crypto.randomUUID()}\<close>:
  a key of \<open>data\<close> with one of the two names is overwritten in place, otherwise the key
  is added at the end.\<close>

definition emitData :: "world \<Rightarrow> payload \<Rightarrow> payload" where
  "emitData w d =
     AList.update ''requestId'' (JStr (uuid_source w (uuids_drawn w)))
       (AList.update ''timestamp'' (JNum (int (now w))) d)"

text \<open>The \<open>try\<close> block of \<open>emit\<close>: \<open>Inl\<close> is the exception thrown by the transport's
  send, together with the world at the moment of the throw.\<close>

definition emit_try :: "nat \<Rightarrow> string \<Rightarrow> payload \<Rightarrow> nat option \<Rightarrow> world \<Rightarrow> (string \<times> world) + world" where
  "emit_try s name d cb w =
     (let w1 = w\<lparr>uuids_drawn := Suc (uuids_drawn w)\<rparr>
      in case sock_emit s name (emitData w d) (Ack cb) w1 of
           Inl msg \<Rightarrow> Inl (msg, w1)
         | Inr w2 \<Rightarrow> Inr w2)"

definition emit_send :: "nat \<Rightarrow> string \<Rightarrow> payload \<Rightarrow> nat option \<Rightarrow> world \<Rightarrow> world" where
  "emit_send s name d cb w =
     (case emit_try s name d cb w of
        Inr w2 \<Rightarrow> w2
      | Inl (msg, w1) \<Rightarrow> invoke_callback cb [(''error'', JStr msg)] (console_log ''Emit error:'' w1))"

definition emit :: "nat \<Rightarrow> string \<Rightarrow> payload \<Rightarrow> nat option \<Rightarrow> world \<Rightarrow> world" where
  "emit e name d cb w =
     (case scope_at w e of None \<Rightarrow> w
      | Some sc \<Rightarrow>
         (case socketRef w of
            None \<Rightarrow> emit_queue sc name d cb w
          | Some s \<Rightarrow> if \<not> isConnected (seen sc) then emit_queue sc name d cb w
                      else emit_send s name d cb w))"

text \<open>The acknowledgement closure of a sent packet, run when the server's answer
  arrives.\<close>

definition ack_arrives :: "nat \<Rightarrow> nat \<Rightarrow> payload \<Rightarrow> world \<Rightarrow> world" where
  "ack_arrives s k response w =
     (if s < length (sockets w) \<and> k < length (sent (sockets w ! s)) then
        (case p_ack (sent (sockets w ! s) ! k) of
           NoAck \<Rightarrow> w
         | Ack cb \<Rightarrow> invoke_callback cb response (setLastActivity (Some (now w)) w))
      else w)"

definition processPendingEmits :: "nat \<Rightarrow> world \<Rightarrow> world" where
  "processPendingEmits p w =
     (case scope_at w p of None \<Rightarrow> w
      | Some sc \<Rightarrow>
         if length (pendingEmits (seen sc)) > 0 \<and> socket_connected w then
           setPendingEmits (\<lambda>prev. [])
             (fold (\<lambda>q. emit (emit_cl sc) (event q) (data q) (callback q)) (pendingEmits (seen sc)) w)
         else w)"

subsection \<open>The lifecycle listeners registered by \<open>connect\<close>\<close>

definition on_connect :: "scope \<Rightarrow> world \<Rightarrow> world" where
  "on_connect sc w =
     processPendingEmits (processPendingEmits_cl sc)
       (showNotification ''success'' ''Connected to Changex Neurix servers''
         (trackEvent ''websocket_connected''
           (setLastActivity (Some (now w))
             (setConnectionError None
               (setReconnectAttempts 0
                 (setIsConnecting False
                   (setIsConnected True
                     (console_log ''WebSocket connected successfully'' w))))))))"

definition on_disconnect :: "scope \<Rightarrow> string \<Rightarrow> world \<Rightarrow> world" where
  "on_disconnect sc reason w =
     (let w1 = setLastActivity None
                 (setIsConnecting False
                   (setIsConnected False
                     (console_log ''WebSocket disconnected:'' w)))
      in if reason = ''io server disconnect'' then
           (let w2 = showNotification ''warning'' ''Disconnected from server'' w1;
                r = set_timer (ReconnectTimeout (connect_cl sc)) w2
            in (snd r)\<lparr>reconnectTimeoutRef := Some (fst r)\<rparr>)
         else w1)"

text \<open>The warning of \<open>connect_error\<close> carries the attempt number in its text; the
  number is left out of the recorded message.\<close>

definition on_connect_error :: "scope \<Rightarrow> string \<Rightarrow> world \<Rightarrow> world" where
  "on_connect_error sc msg w =
     (let w1 = setIsConnecting False
                 (setConnectionError (Some msg)
                   (console_log ''WebSocket connection error:'' w));
          attempt = reconnectAttempts (seen sc) + 1;
          w2 = setReconnectAttempts attempt w1
      in if attempt \<le> 3 then
           showNotification ''warning'' ''Connection attempt failed. Retrying...'' w2
         else
           showNotification ''error'' ''Connection failed. Please check your network.'' w2)"

definition on_reconnect :: "nat \<Rightarrow> world \<Rightarrow> world" where
  "on_reconnect attemptNumber w =
     trackEvent ''websocket_reconnected''
       (showNotification ''success'' ''Reconnected successfully''
         (setConnectionError None
           (setReconnectAttempts 0
             (setIsConnected True
               (console_log ''Reconnected after attempts'' w)))))"

definition on_reconnect_attempt :: "nat \<Rightarrow> world \<Rightarrow> world" where
  "on_reconnect_attempt attemptNumber w =
     setReconnectAttempts attemptNumber (console_log ''Reconnection attempt:'' w)"

definition on_reconnect_failed :: "world \<Rightarrow> world" where
  "on_reconnect_failed w =
     trackEvent ''websocket_reconnect_failed''
       (showNotification ''error'' ''Failed to reconnect. Please refresh the page.''
         (console_log ''Reconnection failed'' w))"

definition on_pong :: "world \<Rightarrow> world" where
  "on_pong w = setLastActivity (Some (now w)) w"

text \<open>The lifecycle listeners are ordinary listeners: a message that the server sends
  under the name \<open>pong\<close>, \<open>reconnect\<close> or \<open>reconnect_failed\<close> runs them too (\<open>reconnect\<close>
  only logs and reports its argument, which is not recorded). \<open>connect\<close>,
  \<open>disconnect\<close> and \<open>connect_error\<close> are reserved names that a server cannot send, and a
  message named \<open>reconnect_attempt\<close> would store its payload object in the counter,
  which the numeric counter of the model does not hold: these four are left out.\<close>

definition core_listener :: "nat \<Rightarrow> sock_event \<Rightarrow> world \<Rightarrow> world" where
  "core_listener c ev w =
     (case scope_at w c of None \<Rightarrow> w
      | Some sc \<Rightarrow>
         (case ev of
            Connect \<Rightarrow> on_connect sc w
          | Disconnect reason \<Rightarrow> on_disconnect sc reason w
          | ConnectError msg \<Rightarrow> on_connect_error sc msg w
          | Reconnect n \<Rightarrow> on_reconnect n w
          | ReconnectAttempt n \<Rightarrow> on_reconnect_attempt n w
          | ReconnectFailed \<Rightarrow> on_reconnect_failed w
          | Pong \<Rightarrow> on_pong w
          | Message name args \<Rightarrow>
              if name = ''pong'' then on_pong w
              else if name = ''reconnect'' then on_reconnect 0 w
              else if name = ''reconnect_failed'' then on_reconnect_failed w
              else w))"

text \<open>Running one listener. A consumer's handler is opaque: the model records that it
  was called and with what.\<close>

fun run_listener :: "listener \<Rightarrow> sock_event \<Rightarrow> world \<Rightarrow> world" where
  "run_listener (Core c) ev w = core_listener c ev w"
| "run_listener (Handler h) ev w = w\<lparr>handler_calls := handler_calls w @ [(h, ev)]\<rparr>"
| "run_listener (Logging k f) ev w = run_listener f ev (console_log ''WebSocket event received:'' w)"

text \<open>The transport delivers an event on socket \<open>s\<close>: it keeps its own \<open>connected\<close>
  flag, then calls the listeners registered under the event's name, in registration
  order. When and on which socket events arrive is the environment's choice.\<close>

definition socket_event :: "nat \<Rightarrow> sock_event \<Rightarrow> world \<Rightarrow> world" where
  "socket_event s ev w =
     (if s < length (sockets w) then
        (let w1 = (case ev of
                     Connect \<Rightarrow> update_socket s (\<lambda>k. k\<lparr>connected := True\<rparr>) w
                   | Disconnect reason \<Rightarrow> update_socket s (\<lambda>k. k\<lparr>connected := False\<rparr>) w
                   | _ \<Rightarrow> w)
         in fold (\<lambda>p. run_listener (snd p) ev)
              (filter (\<lambda>p. fst p = event_name ev) (listeners (sockets w ! s))) w1)
      else w)"

subsection \<open>\<open>on\<close>, \<open>off\<close>, \<open>removeAllListeners\<close>\<close>

definition set_add :: "listener \<Rightarrow> listener list \<Rightarrow> listener list" where
  "set_add f xs = (if f \<in> set xs then xs else xs @ [f])"

definition registry_add :: "string \<Rightarrow> listener \<Rightarrow> world \<Rightarrow> world" where
  "registry_add name f w =
     (let m = eventListeners (state w);
          i = Suc (eventListeners_id (state w))
      in case map_of m name of
           None \<Rightarrow>
             w\<lparr>sets := sets w @ [[f]],
               state := (state w)\<lparr>eventListeners := m @ [(name, length (sets w))],
                                   eventListeners_id := i\<rparr>\<rparr>
         | Some a \<Rightarrow>
             w\<lparr>sets := (sets w)[a := set_add f (set_at w a)],
               state := (state w)\<lparr>eventListeners_id := i\<rparr>\<rparr>)"

definition registry_delete :: "string \<Rightarrow> listener \<Rightarrow> world \<Rightarrow> world" where
  "registry_delete name f w =
     (let m = eventListeners (state w);
          i = Suc (eventListeners_id (state w))
      in case map_of m name of
           None \<Rightarrow> w\<lparr>state := (state w)\<lparr>eventListeners_id := i\<rparr>\<rparr>
         | Some a \<Rightarrow>
             (let members = removeAll f (set_at w a);
                  m' = (if length members = 0 then filter (\<lambda>p. fst p \<noteq> name) m else m)
              in w\<lparr>sets := (sets w)[a := members],
                   state := (state w)\<lparr>eventListeners := m', eventListeners_id := i\<rparr>\<rparr>))"

definition registry_delete_event :: "string \<Rightarrow> world \<Rightarrow> world" where
  "registry_delete_event name w =
     w\<lparr>state := (state w)\<lparr>eventListeners :=
                                 filter (\<lambda>p. fst p \<noteq> name) (eventListeners (state w)),
                               eventListeners_id := Suc (eventListeners_id (state w))\<rparr>\<rparr>"

text \<open>\<open>setEventListeners(updater)\<close> queues the updater. React runs the queued updaters,
  in order, when it next renders the component (\<open>render\<close> below starts with
  \<open>run_updaters\<close>); when the component has no other update pending it may run one
  already at the call, which is the step \<open>RunUpdaters\<close> of the environment.\<close>

definition setEventListeners :: "updater \<Rightarrow> world \<Rightarrow> world" where
  "setEventListeners u w = w\<lparr>queued_updaters := queued_updaters w @ [u]\<rparr>"

fun run_updater :: "updater \<Rightarrow> world \<Rightarrow> world" where
  "run_updater (AddListener name f) w = registry_add name f w"
| "run_updater (DeleteListener name f) w = registry_delete name f w"
| "run_updater (DeleteEvent name) w = registry_delete_event name w"

definition run_updaters :: "world \<Rightarrow> world" where
  "run_updaters w = fold run_updater (queued_updaters w) (w\<lparr>queued_updaters := []\<rparr>)"

text \<open>\<open>on\<close> returns the unsubscribe closure \<open>() => off(event, handlerWithLogging)\<close>; the
  model returns the wrapper it holds.\<close>

definition on :: "string \<Rightarrow> listener \<Rightarrow> world \<Rightarrow> listener \<times> world" where
  "on name handler w =
     (let handlerWithLogging = Logging (next_fn w) handler;
          w1 = setEventListeners (AddListener name handlerWithLogging)
                 (w\<lparr>next_fn := Suc (next_fn w)\<rparr>);
          w2 = (case socketRef w1 of None \<Rightarrow> w1
                | Some s \<Rightarrow> sock_on s name handlerWithLogging w1)
      in (handlerWithLogging, w2))"

definition off :: "string \<Rightarrow> listener \<Rightarrow> world \<Rightarrow> world" where
  "off name handler w =
     (let w1 = setEventListeners (DeleteListener name handler) w
      in case socketRef w1 of None \<Rightarrow> w1
         | Some s \<Rightarrow> sock_off s name handler w1)"

definition unsubscribe :: "string \<Rightarrow> listener \<Rightarrow> world \<Rightarrow> world" where
  "unsubscribe name handlerWithLogging w = off name handlerWithLogging w"

definition removeAllListeners :: "string \<Rightarrow> world \<Rightarrow> world" where
  "removeAllListeners name w =
     (let w1 = setEventListeners (DeleteEvent name) w
      in case socketRef w1 of None \<Rightarrow> w1
         | Some s \<Rightarrow> sock_removeAllListeners s name w1)"

subsection \<open>Rendering: which closure each render binds\<close>

text \<open>\<open>useCallback(f, deps)\<close> returns the closure of an earlier render as long as the
  dependency array is unchanged, and the closure created by this render otherwise.
  \<open>createSocket\<close> depends on the identity only, so it changes exactly when the identity
  does; \<open>showNotification\<close> and \<open>trackEvent\<close> come from contexts outside the file and
  are taken as stable, and the \<open>user\<close> object of \<open>useAuth\<close> is taken to change only
  when its value does.\<close>

definition connect_deps :: "scope \<Rightarrow> identity \<times> nat \<times> nat" where
  "connect_deps sc = (seen_auth sc, eventListeners_id (seen sc), reconnectAttempts (seen sc))"

definition bind_closures :: "world \<Rightarrow> world" where
  "bind_closures w =
     (let n = length (renders w);
          fresh = \<lparr>seen_auth = auth w, seen = state w,
                   connect_cl = n, processPendingEmits_cl = n, emit_cl = n\<rparr>
      in if n = 0 then w\<lparr>renders := [fresh]\<rparr>
         else
           (let p = last (renders w);
                c = (if connect_deps fresh = connect_deps p then connect_cl p else n);
                q = (if pendingEmits_id (state w) = pendingEmits_id (seen p)
                     then processPendingEmits_cl p else n);
                e = (if isConnected (state w) = isConnected (seen p)
                        \<and> isConnecting (state w) = isConnecting (seen p)
                        \<and> c = connect_cl p
                     then emit_cl p else n)
            in w\<lparr>renders := renders w @
                    [fresh\<lparr>connect_cl := c, processPendingEmits_cl := q, emit_cl := e\<rparr>]\<rparr>))"

definition render :: "world \<Rightarrow> world" where
  "render w = bind_closures (run_updaters w)"

subsection \<open>The three effects\<close>

definition auto_deps :: "scope \<Rightarrow> nat option \<times> string option \<times> nat" where
  "auto_deps sc = (user (seen_auth sc), token (seen_auth sc), connect_cl sc)"

definition visibility_deps :: "scope \<Rightarrow> nat option \<times> bool \<times> bool \<times> nat" where
  "visibility_deps sc =
     (user (seen_auth sc), isConnected (seen sc), isConnecting (seen sc), connect_cl sc)"

definition health_deps :: "scope \<Rightarrow> bool \<times> nat option \<times> nat" where
  "health_deps sc = (isConnected (seen sc), lastActivity (seen sc), connect_cl sc)"

definition health_cleanup :: "world \<Rightarrow> world" where
  "health_cleanup w =
     (case health_interval w of None \<Rightarrow> w
      | Some i \<Rightarrow> (clear_timer i w)\<lparr>health_interval := None\<rparr>)"

definition health_effect :: "nat \<Rightarrow> scope \<Rightarrow> world \<Rightarrow> world" where
  "health_effect n sc w =
     (if \<not> isConnected (seen sc) \<or> \<not> truthy_num (lastActivity (seen sc)) then w
      else (let r = set_timer (HealthCheck n) w in (snd r)\<lparr>health_interval := Some (fst r)\<rparr>))"

definition auto_effect :: "scope \<Rightarrow> world \<Rightarrow> world" where
  "auto_effect sc w =
     (if has_identity (seen_auth sc) then connect (connect_cl sc) w else disconnect w)"

text \<open>After a render React runs, for every effect whose dependencies changed, first
  the cleanups of the previous run (in the order of the source) and then the new
  bodies. On the first render every body runs and there is nothing to clean up.\<close>

definition commit :: "world \<Rightarrow> world" where
  "commit w =
     (if renders w = [] then w
      else
        (let n = length (renders w) - 1;
             cur = last (renders w);
             first = (n = 0);
             prev = renders w ! (n - 1);
             run1 = (first \<or> auto_deps prev \<noteq> auto_deps cur);
             run2 = (first \<or> visibility_deps prev \<noteq> visibility_deps cur);
             run3 = (first \<or> health_deps prev \<noteq> health_deps cur);
             w1 = (if run1 \<and> \<not> first then disconnect w else w);
             w2 = (if run2 \<and> \<not> first then w1\<lparr>visibility_listener := None\<rparr> else w1);
             w3 = (if run3 \<and> \<not> first then health_cleanup w2 else w2);
             w4 = (if run1 then auto_effect cur w3 else w3);
             w5 = (if run2 then w4\<lparr>visibility_listener := Some n\<rparr> else w4);
             w6 = (if run3 then health_effect n cur w5 else w5)
         in w6))"

definition rerender :: "world \<Rightarrow> world" where
  "rerender w = commit (render w)"

definition unmount :: "world \<Rightarrow> world" where
  "unmount w = health_cleanup ((disconnect w)\<lparr>visibility_listener := None\<rparr>)"

subsection \<open>Browser events\<close>

definition handleVisibilityChange :: "bool \<Rightarrow> world \<Rightarrow> world" where
  "handleVisibilityChange visible w =
     (case visibility_listener w of None \<Rightarrow> w
      | Some r \<Rightarrow>
         (case scope_at w r of None \<Rightarrow> w
          | Some sc \<Rightarrow>
             if visible \<and> user (seen_auth sc) \<noteq> None
                  \<and> \<not> isConnected (seen sc) \<and> \<not> isConnecting (seen sc)
             then connect (connect_cl sc) (console_log ''Reconnecting due to visibility change'' w)
             else w))"

definition since :: "nat option \<Rightarrow> int" where
  "since t = (case t of None \<Rightarrow> 0 | Some k \<Rightarrow> int k)"

definition health_check :: "nat \<Rightarrow> world \<Rightarrow> world" where
  "health_check r w =
     (case scope_at w r of None \<Rightarrow> w
      | Some sc \<Rightarrow>
         if int (now w) - since (lastActivity (seen sc)) > 60000 then
           connect (connect_cl sc)
             (disconnect (console_log ''No activity for 60 seconds, reconnecting...'' w))
         else w)"

text \<open>The heartbeat callback is not inside a \<open>try\<close>: a send that throws there ends the
  callback and is reported by the browser.\<close>

definition ping_tick :: "world \<Rightarrow> world" where
  "ping_tick w =
     (if socket_connected w then
        (case socketRef w of None \<Rightarrow> w
         | Some s \<Rightarrow>
            (case sock_emit s ''ping'' [(''timestamp'', JNum (int (now w)))] NoAck w of
               Inr w1 \<Rightarrow> w1
             | Inl msg \<Rightarrow> console_log ''Uncaught Error'' w))
      else w)"

definition fire_timer :: "nat \<Rightarrow> world \<Rightarrow> world" where
  "fire_timer i w =
     (case map_of (timers w) i of None \<Rightarrow> w
      | Some PingInterval \<Rightarrow> ping_tick w
      | Some (ReconnectTimeout c) \<Rightarrow> connect c (clear_timer i w)
      | Some (HealthCheck r) \<Rightarrow> health_check r w)"

subsection \<open>The public surface of a render, and the environment\<close>

text \<open>A consumer calls the functions of the object \<open>socketMethods\<close> that some render
  returned: the closures that render bound.\<close>

definition api_connect :: "nat \<Rightarrow> world \<Rightarrow> world" where
  "api_connect r w = (case scope_at w r of None \<Rightarrow> w | Some sc \<Rightarrow> connect (connect_cl sc) w)"

definition api_emit :: "nat \<Rightarrow> string \<Rightarrow> payload \<Rightarrow> nat option \<Rightarrow> world \<Rightarrow> world" where
  "api_emit r name d cb w =
     (case scope_at w r of None \<Rightarrow> w | Some sc \<Rightarrow> emit (emit_cl sc) name d cb w)"

datatype action =
    Render
  | RunUpdaters
  | Unmount
  | SetAuth identity
  | Advance nat
  | SetSendError nat "string option"
  | ApiConnect nat
  | ApiDisconnect
  | ApiEmit nat string payload "nat option"
  | ApiOn string listener
  | ApiOff string listener
  | ApiRemoveAllListeners string
  | SocketEvent nat sock_event
  | AckArrives nat nat payload
  | FireTimer nat
  | VisibilityChange bool

fun step :: "action \<Rightarrow> world \<Rightarrow> world" where
  "step Render w = rerender w"
| "step RunUpdaters w = run_updaters w"
| "step Unmount w = unmount w"
| "step (SetAuth a) w = w\<lparr>auth := a\<rparr>"
| "step (Advance d) w = w\<lparr>now := now w + d\<rparr>"
| "step (SetSendError s e) w = update_socket s (\<lambda>k. k\<lparr>send_error := e\<rparr>) w"
| "step (ApiConnect r) w = api_connect r w"
| "step ApiDisconnect w = disconnect w"
| "step (ApiEmit r name d cb) w = api_emit r name d cb w"
| "step (ApiOn name f) w = snd (on name f w)"
| "step (ApiOff name f) w = off name f w"
| "step (ApiRemoveAllListeners name) w = removeAllListeners name w"
| "step (SocketEvent s ev) w = socket_event s ev w"
| "step (AckArrives s k response) w = ack_arrives s k response w"
| "step (FireTimer i) w = fire_timer i w"
| "step (VisibilityChange visible) w = handleVisibilityChange visible w"

definition run :: "action list \<Rightarrow> world \<Rightarrow> world" where
  "run acts w = fold step acts w"

definition initial_state :: rstate where
  "initial_state =
     \<lparr>isConnected = False, isConnecting = False, reconnectAttempts = 0,
      connectionError = None, lastActivity = None,
      eventListeners = [], eventListeners_id = 0, pendingEmits = [], pendingEmits_id = 0\<rparr>"

definition initial_world :: "identity \<Rightarrow> nat \<Rightarrow> (nat \<Rightarrow> string) \<Rightarrow> world" where
  "initial_world a t src =
     \<lparr>auth = a, socketRef = None, reconnectTimeoutRef = None, pingIntervalRef = None,
      state = initial_state, queued_updaters = [], sets = [], sockets = [], renders = [],
      visibility_listener = None, health_interval = None,
      timers = [], next_timer = 1, now = t, uuid_source = src, uuids_drawn = 0,
      next_fn = 0, console = [], notifications = [], tracked = [],
      callback_calls = [], handler_calls = []\<rparr>"


subsection \<open>Live transport handles\<close>

text \<open>A handle is live until \<open>disconnect()\<close> has been called on it. \<open>handles\<close> keeps what
  the invariant is about: the ref and, per socket object, whether it is torn down.\<close>

definition live_handles :: "world \<Rightarrow> socket list" where
  "live_handles w = filter (\<lambda>k. \<not> closed k) (sockets w)"

definition handles :: "world \<Rightarrow> nat option \<times> bool list" where
  "handles w = (socketRef w, map closed (sockets w))"

definition one_live :: "nat option \<times> bool list \<Rightarrow> bool" where
  "one_live h = ((\<forall>s. fst h = Some s \<longrightarrow> s < length (snd h))
                 \<and> (\<forall>i<length (snd h). fst h \<noteq> Some i \<longrightarrow> snd h ! i))"

subsection \<open>The socket that \<open>createSocket\<close> builds, and the health-check timers\<close>

definition new_socket :: "identity \<Rightarrow> socket" where
  "new_socket a = \<lparr>connected = False, closed = False, opened = False,
                 handshake = a, listeners = [], sent = [], send_error = None\<rparr>"

fun is_health :: "timer \<Rightarrow> bool" where
  "is_health (HealthCheck r) = True"
| "is_health PingInterval = False"
| "is_health (ReconnectTimeout c) = False"

definition health_timers :: "world \<Rightarrow> (nat \<times> timer) list" where
  "health_timers w = filter (\<lambda>p. is_health (snd p)) (timers w)"

subsection \<open>Concrete sessions\<close>

definition alice :: identity where
  "alice = \<lparr>user = Some 1, token = Some ''tok'', refreshToken = None\<rparr>"

definition nobody :: identity where
  "nobody = \<lparr>user = None, token = None, refreshToken = None\<rparr>"

definition uuids :: "nat \<Rightarrow> string" where
  "uuids n = (if n = 0 then ''f47ac10b-58cc-4372-a567-0e02b2c3d479''
              else ''0a1b2c3d-4e5f-4a6b-8c7d-9e0f1a2b3c4d'')"

definition world0 :: world where
  "world0 = initial_world alice 1000 uuids"

definition logged_out0 :: world where
  "logged_out0 = initial_world nobody 1000 uuids"

definition cat_request :: pending_emit where
  "cat_request = \<lparr>event = ''generate'', data = [(''prompt'', JStr ''cat'')], callback = Some 5\<rparr>"

definition progress :: sock_event where
  "progress = Message ''generation_progress'' [(''percent'', JNum 40)]"

text \<open>Mount with a logged-in user (the auto-connect effect calls \<open>connect\<close>), then
  re-render with \<open>isConnecting\<close>: the handshake of socket 0 is in flight.\<close>

definition connecting :: world where
  "connecting = run [Render, Render] world0"

text \<open>The same, then an \<open>emit\<close> while the handshake is in flight, a re-render, the
  transport connects, a re-render.\<close>

definition emit_while_connecting :: "action list" where
  "emit_while_connecting =
     [Render, Render,
      ApiEmit 1 ''generate'' [(''prompt'', JStr ''cat'')] (Some 5), Render,
      SocketEvent 0 Connect, Render]"

text \<open>Mount logged out, emit (queued), re-render, log in, re-render (the effect
  connects), re-render, the transport connects, re-render.\<close>

definition emit_before_login :: "action list" where
  "emit_before_login =
     [Render,
      ApiEmit 0 ''generate'' [(''prompt'', JStr ''cat'')] (Some 5), Render,
      SetAuth alice, Render, Render,
      SocketEvent 0 Connect, Render]"

text \<open>Mount, the transport connects, re-render: the connection is up.\<close>

definition connected_world :: world where
  "connected_world = run [Render, Render, SocketEvent 0 Connect, Render] world0"

text \<open>The connection was up and the transport lost it.\<close>

definition dropped :: world where
  "dropped = run [Render, Render, SocketEvent 0 Connect, Render,
                  SocketEvent 0 (Disconnect ''transport close''), Render] world0"

text \<open>The connection is up and the transport's send throws.\<close>

definition failing_send :: world where
  "failing_send = run [Render, Render, SocketEvent 0 Connect, Render,
                       SetSendError 0 (Some ''xhr poll error'')] world0"

text \<open>The connection was up, the transport lost it, reports its tenth reconnect
  attempt and then that reconnecting failed.\<close>

definition retries_exhausted :: "action list" where
  "retries_exhausted =
     [Render, Render, SocketEvent 0 Connect, Render,
      SocketEvent 0 (Disconnect ''transport close''), Render,
      SocketEvent 0 (ReconnectAttempt 10), SocketEvent 0 ReconnectFailed]"

text \<open>The connection is up and two requests are emitted.\<close>

definition two_emits :: "action list" where
  "two_emits =
     [Render, Render, SocketEvent 0 Connect, Render,
      ApiEmit 2 ''generate'' [(''prompt'', JStr ''cat'')] (Some 5),
      ApiEmit 2 ''generate'' [(''prompt'', JStr ''dog'')] (Some 6)]"

text \<open>The connection was up and the transport has just lost it: the \<open>disconnect\<close>
  listener has run, the component has not rendered again yet.\<close>

definition just_dropped :: world where
  "just_dropped = run [Render, Render, SocketEvent 0 Connect, Render,
                       SocketEvent 0 (Disconnect ''transport close'')] world0"

text \<open>A consumer subscribes in its mount effect, while the first handshake is in
  flight: the next render creates a \<open>connect\<close> that captures \<open>isConnecting = true\<close> and
  re-runs the auto-connect effect, which tears socket 0 down and whose \<open>connect\<close>
  returns at once. Later a consumer calls the \<open>connect\<close> it was handed by the mount
  render; socket 1 connects; 60001 ms pass without activity.\<close>

definition stale_and_stuck :: world where
  "stale_and_stuck =
     run [Render, ApiOn ''generation_progress'' (Handler 7), Render, Render,
          ApiConnect 0, Render, SocketEvent 1 Connect, Render, Advance 60001] world0"

text \<open>The server closes the connection (a reconnect is scheduled), the page becomes
  visible and reconnects before that timer fires, and the server closes the new
  connection too (a second reconnect is scheduled).\<close>

definition dropped_twice :: world where
  "dropped_twice =
     run [Render, Render, SocketEvent 0 Connect, Render,
          SocketEvent 0 (Disconnect ''io server disconnect''), Render,
          VisibilityChange True, Render, SocketEvent 1 Connect, Render,
          SocketEvent 1 (Disconnect ''io server disconnect''), Render] world0"

section \<open>Evaluation\<close>

lemmas model_defs =
  truthy_str_def truthy_num_def has_identity_def console_log_def showNotification_def
  trackEvent_def invoke_callback_def setIsConnected_def setIsConnecting_def
  setReconnectAttempts_def setConnectionError_def setLastActivity_def setPendingEmits_def
  set_timer_def clear_timer_def scope_at_def update_socket_def sock_disconnect_def
  sock_connect_def sock_on_def sock_off_def sock_removeAllListeners_def sock_emit_def
  socket_connected_def createSocket_def startPingInterval_def disconnect_def
  core_events_def set_at_def registry_listeners_def connect_teardown_def
  connect_install_def connect_failed_def connect_def queued_result_def emit_queue_def
  emitData_def emit_try_def emit_send_def emit_def ack_arrives_def processPendingEmits_def
  on_connect_def on_disconnect_def on_connect_error_def on_reconnect_def
  on_reconnect_attempt_def on_reconnect_failed_def on_pong_def core_listener_def
  socket_event_def set_add_def registry_add_def registry_delete_def
  registry_delete_event_def setEventListeners_def run_updaters_def on_def off_def
  unsubscribe_def removeAllListeners_def connect_deps_def bind_closures_def render_def
  auto_deps_def
  visibility_deps_def health_deps_def health_cleanup_def health_effect_def auto_effect_def
  commit_def rerender_def unmount_def handleVisibilityChange_def since_def health_check_def
  ping_tick_def fire_timer_def api_connect_def api_emit_def run_def initial_state_def
  initial_world_def alice_def nobody_def uuids_def world0_def logged_out0_def
  cat_request_def progress_def connecting_def connected_world_def dropped_def
  failing_send_def retries_exhausted_def two_emits_def just_dropped_def
  stale_and_stuck_def dropped_twice_def

section \<open>C1: the queue is not delivered on connect\<close>

text \<open>
  C1. Messages emitted while not connected are to be queued in call order and, when the
  connection is next established, each sent exactly once, in order, none lost.

  The code queues them, but the flush does not deliver them. The \<open>connect\<close> listener
  calls the \<open>processPendingEmits\<close> closure of the render whose \<open>connect\<close> built the
  socket. In the first session that closure still sees the empty queue of the mount
  render, so nothing is flushed: the transport is connected, nothing was sent, and the
  request stays in the queue. In the second session the closure sees the request, but
  the \<open>emit\<close> it calls still sees \<open>isConnected = false\<close>: the request is queued again
  (its callback is told "queued" a second time), then \<open>setPendingEmits([])\<close> empties the
  queue, and the request is gone without having been sent.
\<close>

theorem queued_emit_not_flushed_on_connect:
  "(let w = run emit_while_connecting world0 in
      isConnected (state w) \<and> connected (sockets w ! 0) \<and> sent (sockets w ! 0) = []
      \<and> pendingEmits (state w) = [cat_request]
      \<and> callback_calls w = [(5, queued_result)])
   \<and> (let w = run emit_before_login logged_out0 in
      isConnected (state w) \<and> connected (sockets w ! 0) \<and> sent (sockets w ! 0) = []
      \<and> pendingEmits (state w) = []
      \<and> callback_calls w = [(5, queued_result), (5, queued_result)])"
  by (simp add: model_defs emit_while_connecting_def emit_before_login_def Let_def
        cong: let_weak_cong)

section \<open>C2: \<open>off\<close> with the handler that was passed to \<open>on\<close>\<close>

text \<open>
  C2. After \<open>on(cat, h)\<close> followed by \<open>off(cat, h)\<close> the handler \<open>h\<close> is to receive no
  further delivery on \<open>cat\<close>, also on a transport that existed before the \<open>off\<close>.

  \<open>on\<close> registers the wrapper \<open>handlerWithLogging\<close>, in the registry and on the socket,
  and \<open>off\<close> removes by identity. Called with \<open>h\<close> itself it finds nothing to remove:
  registry and socket listeners are unchanged, also once the queued updaters have run
  in the next render, and a later message still reaches \<open>h\<close>. Only the unsubscribe
  function returned by \<open>on\<close>, which passes the wrapper, removes it.
\<close>

theorem off_with_original_handler_still_delivers:
  "(let w1 = snd (on ''generation_progress'' (Handler 7) connecting);
        w2 = off ''generation_progress'' (Handler 7) w1
    in handler_calls connecting = []
       \<and> handler_calls (socket_event 0 progress w2) = [(7, progress)]
       \<and> eventListeners (state w2) = eventListeners (state w1) \<and> sets w2 = sets w1
       \<and> listeners (sockets w2 ! 0) = listeners (sockets w1 ! 0)
       \<and> eventListeners (state (render w1)) = [(''generation_progress'', 0)]
       \<and> sets (render w1) = [[Logging 0 (Handler 7)]]
       \<and> eventListeners (state (render w2)) = [(''generation_progress'', 0)]
       \<and> sets (render w2) = [[Logging 0 (Handler 7)]]
       \<and> handler_calls (socket_event 0 progress (render w2)) = [(7, progress)])
   \<and> (let r = on ''generation_progress'' (Handler 7) connecting;
          w2 = unsubscribe ''generation_progress'' (fst r) (snd r)
      in handler_calls (socket_event 0 progress w2) = [])"
  by (simp add: model_defs Let_def cong: let_weak_cong)

section \<open>C5: \<open>connect\<close> while a handshake is in flight\<close>

text \<open>
  C5. \<open>connect()\<close> is to be a no-op when the manager is already connected or connecting,
  and to return silently, creating no transport, when user or token is missing.

  The guard \<open>if (isConnecting) return\<close> reads the \<open>isConnecting\<close> of the render that
  created the closure, and \<open>isConnecting\<close> is not among the dependencies of that
  \<open>useCallback\<close>. After the mount the state is "connecting" and the latest render shows
  it, but the \<open>connect\<close> that the same render hands out is still the closure of the mount
  render, which saw \<open>false\<close>: calling it tears down the socket whose handshake is in
  flight and opens a second one.
\<close>

theorem connect_while_connecting_replaces_transport:
  "(let w = connecting; w' = api_connect 1 w in
      isConnecting (state w) \<and> isConnecting (seen (last (renders w)))
      \<and> length (renders w) = 2 \<and> connect_cl (last (renders w)) = 0
      \<and> socketRef w = Some 0 \<and> length (sockets w) = 1
      \<and> opened (sockets w ! 0) \<and> \<not> closed (sockets w ! 0)
      \<and> socketRef w' = Some 1 \<and> length (sockets w') = 2
      \<and> closed (sockets w' ! 0) \<and> opened (sockets w' ! 1) \<and> \<not> closed (sockets w' ! 1))"
  by (simp add: model_defs Let_def cong: let_weak_cong)

section \<open>C7: at most one live transport handle\<close>

subsection \<open>What each operation does to the handles\<close>

lemma handles_update_socket:
  "(\<And>k. closed (f k) = closed k) \<Longrightarrow> handles (update_socket s f w) = handles w"
  by (simp add: handles_def update_socket_def map_update list_update_same_conv)

lemma handles_sinks [simp]:
  "handles (console_log m w) = handles w"
  "handles (showNotification l m w) = handles w"
  "handles (trackEvent m w) = handles w"
  "handles (invoke_callback cb r w) = handles w"
  "handles (setIsConnected b w) = handles w"
  "handles (setIsConnecting b w) = handles w"
  "handles (setReconnectAttempts n w) = handles w"
  "handles (setConnectionError e w) = handles w"
  "handles (setLastActivity t w) = handles w"
  "handles (setPendingEmits g w) = handles w"
  "handles (clear_timer i w) = handles w"
  "handles (snd (set_timer k w)) = handles w"
  by (simp_all add: handles_def console_log_def showNotification_def trackEvent_def
        invoke_callback_def setIsConnected_def setIsConnecting_def setReconnectAttempts_def
        setConnectionError_def setLastActivity_def setPendingEmits_def clear_timer_def
        set_timer_def split: option.splits)

lemma handles_fields [simp]:
  "handles (w\<lparr>pingIntervalRef := a\<rparr>) = handles w"
  "handles (w\<lparr>reconnectTimeoutRef := a\<rparr>) = handles w"
  "handles (w\<lparr>visibility_listener := a\<rparr>) = handles w"
  "handles (w\<lparr>health_interval := a\<rparr>) = handles w"
  "handles (w\<lparr>uuids_drawn := n\<rparr>) = handles w"
  "handles (w\<lparr>next_fn := n\<rparr>) = handles w"
  "handles (w\<lparr>auth := i\<rparr>) = handles w"
  "handles (w\<lparr>now := n\<rparr>) = handles w"
  "handles (w\<lparr>renders := rs\<rparr>) = handles w"
  "handles (w\<lparr>handler_calls := hc\<rparr>) = handles w"
  "handles (w\<lparr>state := st\<rparr>) = handles w"
  "handles (w\<lparr>sets := ss\<rparr>) = handles w"
  "handles (w\<lparr>queued_updaters := q\<rparr>) = handles w"
  by (simp_all add: handles_def)

lemma handles_sock [simp]:
  "handles (sock_connect s w) = handles w"
  "handles (sock_on s name f w) = handles w"
  "handles (sock_off s name f w) = handles w"
  "handles (sock_removeAllListeners s name w) = handles w"
  by (simp_all add: sock_connect_def sock_on_def sock_off_def sock_removeAllListeners_def
        handles_update_socket)

lemma handles_sock_emit: "sock_emit s name d a w = Inr w' \<Longrightarrow> handles w' = handles w"
  by (auto simp: sock_emit_def handles_update_socket split: if_splits option.splits)

lemma handles_startPingInterval [simp]: "handles (startPingInterval w) = handles w"
  by (simp add: startPingInterval_def Let_def split: option.splits)


lemma disconnect_all_closed:
  "one_live (handles w) \<Longrightarrow> socketRef (disconnect w) = None
     \<and> length (sockets (disconnect w)) = length (sockets w)
     \<and> (\<forall>i<length (sockets w). closed (sockets (disconnect w) ! i))"
  by (auto simp: disconnect_def Let_def one_live_def handles_def sock_disconnect_def
        update_socket_def console_log_def setConnectionError_def setIsConnecting_def
        setIsConnected_def clear_timer_def nth_list_update split: option.splits)


lemma fold_sock_on_handles [simp]:
  "handles (fold (\<lambda>p. sock_on s (fst p) (snd p)) xs w) = handles w"
  by (induction xs arbitrary: w) simp_all

lemma fold_core_handles [simp]:
  "handles (fold (\<lambda>name. sock_on s name f) xs w) = handles w"
  by (induction xs arbitrary: w) simp_all





lemma handles_emit_send [simp]: "handles (emit_send s name d cb w) = handles w"
  by (auto simp: emit_send_def emit_try_def Let_def split: sum.splits dest: handles_sock_emit)








lemma handles_ack_arrives [simp]: "handles (ack_arrives s k r w) = handles w"
  by (simp add: ack_arrives_def split: ack.splits)

lemma handles_registry [simp]:
  "handles (registry_add name f w) = handles w"
  "handles (registry_delete name f w) = handles w"
  "handles (registry_delete_event name w) = handles w"
  "handles (setEventListeners u w) = handles w"
  by (simp_all add: registry_add_def registry_delete_def registry_delete_event_def
        setEventListeners_def Let_def handles_def split: option.splits)

lemma handles_run_updater [simp]: "handles (run_updater u w) = handles w"
  by (cases u) simp_all

lemma handles_fold_updaters [simp]: "handles (fold run_updater us w) = handles w"
  by (induction us arbitrary: w) simp_all

lemma handles_run_updaters [simp]: "handles (run_updaters w) = handles w"
  by (simp add: run_updaters_def)

lemma handles_on_off [simp]:
  "handles (snd (on name f w)) = handles w"
  "handles (off name f w) = handles w"
  "handles (removeAllListeners name w) = handles w"
  by (simp_all add: on_def off_def removeAllListeners_def Let_def split: option.splits)

lemma handles_bind_closures [simp]: "handles (bind_closures w) = handles w"
  by (simp add: bind_closures_def Let_def)

lemma handles_render [simp]: "handles (render w) = handles w"
  by (simp add: render_def)

lemma handles_health [simp]:
  "handles (health_cleanup w) = handles w"
  "handles (health_effect n sc w) = handles w"
  by (simp_all add: health_cleanup_def health_effect_def Let_def split: option.splits)






lemma handles_ping_tick [simp]: "handles (ping_tick w) = handles w"
  by (auto simp: ping_tick_def split: option.splits sum.splits dest: handles_sock_emit)











section \<open>Frame facts about \<open>connect\<close>\<close>

lemma update_socket_twice:
  "update_socket s g (update_socket s f w) = update_socket s (\<lambda>k. g (f k)) w"
  by (simp add: update_socket_def)

lemma fold_sock_on:
  "fold (\<lambda>p. sock_on s (fst p) (snd p)) xs w =
     update_socket s (\<lambda>k. k\<lparr>listeners := listeners k @ xs\<rparr>) w"
proof (induction xs arbitrary: w)
  case Nil
  show ?case by (simp add: update_socket_def list_update_same_conv)
next
  case (Cons x xs)
  show ?case by (simp add: Cons.IH) (simp add: sock_on_def update_socket_twice)
qed

lemma fold_core_on:
  "fold (\<lambda>name. sock_on s name f) ns w =
     update_socket s (\<lambda>k. k\<lparr>listeners := listeners k @ map (\<lambda>n. (n, f)) ns\<rparr>) w"
proof (induction ns arbitrary: w)
  case Nil
  show ?case by (simp add: update_socket_def list_update_same_conv)
next
  case (Cons x xs)
  show ?case by (simp add: Cons.IH) (simp add: sock_on_def update_socket_twice)
qed

lemma update_socket_new:
  "update_socket (length (sockets w)) f (w\<lparr>sockets := sockets w @ [k], socketRef := r\<rparr>)
     = w\<lparr>sockets := sockets w @ [f k], socketRef := r\<rparr>"
  by (simp add: update_socket_def)

lemma set_at_frame [simp]:
  "set_at (update_socket s f w) a = set_at w a"
  "set_at (w\<lparr>sockets := xs, socketRef := r\<rparr>) a = set_at w a"
  by (simp_all add: set_at_def update_socket_def)

lemma registry_listeners_frame [simp]:
  "registry_listeners (update_socket s f w) m = registry_listeners w m"
  "registry_listeners (w\<lparr>sockets := xs, socketRef := r\<rparr>) m = registry_listeners w m"
  by (simp_all add: registry_listeners_def)

lemma connect_install_eq:
  "connect_install c sc k w =
     startPingInterval
       (w\<lparr>sockets := sockets w @
             [k\<lparr>listeners := listeners k @ map (\<lambda>n. (n, Core c)) core_events
                    @ registry_listeners w (eventListeners (seen sc)),
                opened := True\<rparr>],
          socketRef := Some (length (sockets w))\<rparr>)"
  by (simp add: connect_install_def Let_def fold_sock_on fold_core_on sock_connect_def
        update_socket_new)

lemma startPingInterval_frame [simp]:
  "state (startPingInterval w) = state w"
  "sockets (startPingInterval w) = sockets w"
  "socketRef (startPingInterval w) = socketRef w"
  "renders (startPingInterval w) = renders w"
  "callback_calls (startPingInterval w) = callback_calls w"
  "handler_calls (startPingInterval w) = handler_calls w"
  "health_interval (startPingInterval w) = health_interval w"
  "uuids_drawn (startPingInterval w) = uuids_drawn w"
  "uuid_source (startPingInterval w) = uuid_source w"
  by (simp_all add: startPingInterval_def Let_def set_timer_def clear_timer_def split: option.splits)

lemma connect_teardown_frame [simp]:
  "state (connect_teardown w) = state w"
  "renders (connect_teardown w) = renders w"
  "callback_calls (connect_teardown w) = callback_calls w"
  "handler_calls (connect_teardown w) = handler_calls w"
  "health_interval (connect_teardown w) = health_interval w"
  "timers (connect_teardown w) = timers w"
  "uuids_drawn (connect_teardown w) = uuids_drawn w"
  "uuid_source (connect_teardown w) = uuid_source w"
  "length (sockets (connect_teardown w)) = length (sockets w)"
  "i < length (sockets w) \<Longrightarrow> sent (sockets (connect_teardown w) ! i) = sent (sockets w ! i)"
  by (simp_all add: connect_teardown_def sock_disconnect_def update_socket_def nth_list_update
        split: option.splits)

lemma connect_frame:
  "pendingEmits (state (connect c w)) = pendingEmits (state w)"
  "isConnected (state (connect c w)) = isConnected (state w)"
  "renders (connect c w) = renders w"
  "callback_calls (connect c w) = callback_calls w"
  "handler_calls (connect c w) = handler_calls w"
  "health_interval (connect c w) = health_interval w"
  "uuids_drawn (connect c w) = uuids_drawn w"
  "uuid_source (connect c w) = uuid_source w"
  by (simp_all add: connect_def connect_install_eq connect_failed_def Let_def console_log_def
        showNotification_def setConnectionError_def setIsConnecting_def split: option.splits)

lemma connect_sent:
  "i < length (sockets w) \<Longrightarrow> sent (sockets (connect c w) ! i) = sent (sockets w ! i)"
  by (simp add: connect_def connect_install_eq connect_failed_def Let_def console_log_def
        showNotification_def setConnectionError_def setIsConnecting_def nth_append
        split: option.splits)

section \<open>\<open>emit\<close> when its own test says "not connected"\<close>

text \<open>The queueing branch of \<open>emit\<close>, taken when there is no socket in the ref or the
  closure sees \<open>isConnected = false\<close>: the triple is appended to the outbound queue,
  the callback, when there is one, is called at once with a result that has
  \<open>queued: true\<close>, \<open>connect\<close> is called unless the closure sees \<open>isConnecting\<close>, and
  nothing is sent.\<close>

lemma emit_queue_branch:
  assumes "scope_at w e = Some sc" and "socketRef w = None \<or> \<not> isConnected (seen sc)"
  shows "pendingEmits (state (emit e name d cb w))
           = pendingEmits (state w) @ [\<lparr>event = name, data = d, callback = cb\<rparr>]
       \<and> callback_calls (emit e name d cb w)
           = callback_calls w @ (case cb of None \<Rightarrow> [] | Some k \<Rightarrow> [(k, queued_result)])
       \<and> map_of queued_result ''queued'' = Some (JBool True)
       \<and> emit e name d cb w
           = (let q = invoke_callback cb queued_result
                        (setPendingEmits (\<lambda>prev. prev @ [\<lparr>event = name, data = d, callback = cb\<rparr>]) w)
              in if isConnecting (seen sc) then q else connect (connect_cl sc) q)
       \<and> (\<forall>i<length (sockets w). sent (sockets (emit e name d cb w) ! i) = sent (sockets w ! i))"
proof -
  let ?q = "invoke_callback cb queued_result
              (setPendingEmits (\<lambda>prev. prev @ [\<lparr>event = name, data = d, callback = cb\<rparr>]) w)"
  have eq: "emit e name d cb w = (if isConnecting (seen sc) then ?q else connect (connect_cl sc) ?q)"
    using assms by (auto simp: emit_def emit_queue_def Let_def split: option.splits)
  have q: "pendingEmits (state ?q) = pendingEmits (state w) @ [\<lparr>event = name, data = d, callback = cb\<rparr>]"
    "callback_calls ?q = callback_calls w @ (case cb of None \<Rightarrow> [] | Some k \<Rightarrow> [(k, queued_result)])"
    "sockets ?q = sockets w"
    by (simp_all add: invoke_callback_def setPendingEmits_def split: option.splits)
  show ?thesis
    unfolding eq using q
    by (simp add: connect_frame connect_sent Let_def queued_result_def)
qed

section \<open>C6: \<open>emit\<close> after the connection was lost\<close>

text \<open>
  C6. Every \<open>emit\<close> made while the manager is not connected is to append the triple to
  the outbound queue, call the callback at once with \<open>queued: true\<close>, and trigger
  \<open>connect\<close> unless a connection attempt is under way.

  \<open>emit\<close> decides with the \<open>isConnected\<close> its closure captured, where \<open>connect\<close>,
  \<open>processPendingEmits\<close> and the heartbeat ask the socket itself. In \<open>just_dropped\<close> the
  transport has reported the loss, the state and the socket both say "not connected",
  and the \<open>emit\<close> of the latest render still sees \<open>true\<close>: the request is handed to the
  disconnected socket, nothing is queued, the callback is not called and \<open>connect\<close> is
  not triggered. In \<open>dropped\<close> the component has rendered again; the \<open>emit\<close> that a
  consumer kept from the render before does the same.
\<close>

theorem emit_after_drop_is_not_queued:
  "(let w = just_dropped;
        w' = api_emit 2 ''generate'' [(''prompt'', JStr ''cat'')] (Some 5) w
    in length (renders w) = 3
       \<and> \<not> isConnected (state w) \<and> \<not> isConnecting (state w)
       \<and> socketRef w = Some 0 \<and> \<not> connected (sockets w ! 0)
       \<and> pendingEmits (state w') = [] \<and> callback_calls w' = []
       \<and> console w' = console w
       \<and> length (sockets w') = 1 \<and> \<not> isConnecting (state w')
       \<and> map p_event (sent (sockets w' ! 0)) = [''generate''])
   \<and> (let w = dropped;
          w' = api_emit 2 ''generate'' [(''prompt'', JStr ''cat'')] (Some 5) w
      in length (renders w) = 4
         \<and> \<not> isConnected (state w) \<and> \<not> isConnected (seen (last (renders w)))
         \<and> socketRef w = Some 0 \<and> \<not> connected (sockets w ! 0)
         \<and> pendingEmits (state w') = [] \<and> callback_calls w' = []
         \<and> console w' = console w
         \<and> length (sockets w') = 1 \<and> \<not> isConnecting (state w')
         \<and> map p_event (sent (sockets w' ! 0)) = [''generate''])"
  by (simp add: model_defs Let_def cong: let_weak_cong)

section \<open>\<open>disconnect\<close> twice, and the timers held in the refs\<close>


lemma map_of_filter_fst: "map_of (filter (\<lambda>p. fst p \<noteq> i) ts) i = None"
  by (induction ts) auto

lemma disconnect_refs [simp]:
  "socketRef (disconnect w) = None"
  "pingIntervalRef (disconnect w) = None"
  "reconnectTimeoutRef (disconnect w) = None"
  by (simp_all add: disconnect_def Let_def console_log_def setConnectionError_def
        setIsConnecting_def setIsConnected_def clear_timer_def split: option.splits)

lemma disconnect_state:
  "state (disconnect w)
     = (state w)\<lparr>isConnected := False, isConnecting := False, connectionError := None\<rparr>"
  by (simp add: disconnect_def Let_def console_log_def setConnectionError_def
        setIsConnecting_def setIsConnected_def clear_timer_def sock_disconnect_def
        update_socket_def split: option.splits)

lemma disconnect_no_refs:
  "socketRef v = None \<Longrightarrow> pingIntervalRef v = None \<Longrightarrow> reconnectTimeoutRef v = None \<Longrightarrow>
   disconnect v = console_log ''WebSocket disconnected''
                    (setConnectionError None (setIsConnecting False (setIsConnected False v)))"
  by (simp add: disconnect_def Let_def setConnectionError_def setIsConnecting_def
        setIsConnected_def)

lemma disconnect_twice:
  "disconnect (disconnect w)
     = (disconnect w)\<lparr>console := console (disconnect w) @ [''WebSocket disconnected'']\<rparr>"
proof -
  let ?v = "disconnect w"
  have st: "(state ?v)\<lparr>isConnected := False, isConnecting := False, connectionError := None\<rparr> = state ?v"
    by (simp add: disconnect_state)
  have "setConnectionError None (setIsConnecting False (setIsConnected False ?v)) = ?v\<lparr>state := (state ?v)\<lparr>isConnected := False, isConnecting := False, connectionError := None\<rparr>\<rparr>"
    by (simp add: setConnectionError_def setIsConnecting_def setIsConnected_def)
  also have "\<dots> = ?v" unfolding st by simp
  finally have "setConnectionError None (setIsConnecting False (setIsConnected False ?v)) = ?v" .
  then show ?thesis
    by (simp add: disconnect_no_refs console_log_def)
qed

lemma disconnect_closes:
  "socketRef w = Some s \<Longrightarrow> s < length (sockets w) \<Longrightarrow>
     closed (sockets (disconnect w) ! s) \<and> \<not> connected (sockets (disconnect w) ! s)"
  by (simp add: disconnect_def Let_def console_log_def setConnectionError_def
        setIsConnecting_def setIsConnected_def clear_timer_def sock_disconnect_def
        update_socket_def split: option.splits)

lemma disconnect_timers:
  "timers (disconnect w)
     = filter (\<lambda>p. (\<forall>i. pingIntervalRef w = Some i \<longrightarrow> fst p \<noteq> i)
                 \<and> (\<forall>i. reconnectTimeoutRef w = Some i \<longrightarrow> fst p \<noteq> i)) (timers w)"
  by (simp add: disconnect_def Let_def console_log_def setConnectionError_def
        setIsConnecting_def setIsConnected_def clear_timer_def sock_disconnect_def
        update_socket_def split: option.splits)

lemma map_of_filter_none: "\<not> P (i, the (map_of ts i)) \<Longrightarrow> (\<And>v. \<not> P (i, v)) \<Longrightarrow> map_of (filter P ts) i = None"
  by (induction ts) auto

text \<open>\<open>disconnect\<close> tears down the transport in the ref, if any, removes the timers
  whose ids are held in \<open>pingIntervalRef\<close> and \<open>reconnectTimeoutRef\<close>, and leaves both
  flags false. A second call right after the first changes nothing but the console,
  which gets its line again.\<close>

lemma disconnect_twice_and_held_timers:
  "disconnect (disconnect w)
     = (disconnect w)\<lparr>console := console (disconnect w) @ [''WebSocket disconnected'']\<rparr>
   \<and> socketRef (disconnect w) = None
   \<and> pingIntervalRef (disconnect w) = None \<and> reconnectTimeoutRef (disconnect w) = None
   \<and> \<not> isConnected (state (disconnect w)) \<and> \<not> isConnecting (state (disconnect w))
   \<and> (\<forall>s. socketRef w = Some s \<and> s < length (sockets w) \<longrightarrow>
          closed (sockets (disconnect w) ! s) \<and> \<not> connected (sockets (disconnect w) ! s))
   \<and> (\<forall>i. pingIntervalRef w = Some i \<longrightarrow> map_of (timers (disconnect w)) i = None)
   \<and> (\<forall>i. reconnectTimeoutRef w = Some i \<longrightarrow> map_of (timers (disconnect w)) i = None)"
proof -
  have t1: "\<forall>i. pingIntervalRef w = Some i \<longrightarrow> map_of (timers (disconnect w)) i = None"
    by (auto simp: disconnect_timers intro!: map_of_filter_none)
  have t2: "\<forall>i. reconnectTimeoutRef w = Some i \<longrightarrow> map_of (timers (disconnect w)) i = None"
    by (auto simp: disconnect_timers intro!: map_of_filter_none)
  show ?thesis
    using disconnect_twice [of w] disconnect_closes [of w] t1 t2
    by (simp add: disconnect_state)
qed

section \<open>C8: a reconnect timer that \<open>disconnect\<close> does not cancel\<close>

text \<open>
  C8. \<open>disconnect\<close> is to be idempotent and total and, in every state, to tear down the
  transport and cancel the heartbeat and the reconnect timers.

  The \<open>disconnect\<close> listener stores the id of the reconnect timer it starts in
  \<open>reconnectTimeoutRef\<close> without clearing the timer whose id was there
  (\<open>startPingInterval\<close> does clear before it overwrites), and \<open>disconnect\<close> clears only
  the id in the ref. In \<open>dropped_twice\<close> the timers 3 and 6 are both pending reconnects
  and the ref holds 6: after \<open>disconnect\<close> timer 3 is still armed, and when it fires it
  opens socket 2 although the manager was disconnected. The second \<open>disconnect\<close> in a
  row does change nothing but the console.
\<close>

theorem disconnect_leaves_overwritten_reconnect_timer:
  "(let w = dropped_twice; d = disconnect w; f = fire_timer 3 d in
      timers w = [(3, ReconnectTimeout 0), (4, PingInterval), (6, ReconnectTimeout 0)]
      \<and> pingIntervalRef w = Some 4 \<and> reconnectTimeoutRef w = Some 6
      \<and> socketRef w = Some 1 \<and> length (sockets w) = 2
      \<and> timers d = [(3, ReconnectTimeout 0)]
      \<and> socketRef d = None \<and> closed (sockets d ! 0) \<and> closed (sockets d ! 1)
      \<and> \<not> isConnected (state d) \<and> \<not> isConnecting (state d)
      \<and> timers (disconnect d) = [(3, ReconnectTimeout 0)]
      \<and> socketRef f = Some 2 \<and> length (sockets f) = 3
      \<and> opened (sockets f ! 2) \<and> \<not> closed (sockets f ! 2) \<and> isConnecting (state f))"
  by (simp add: model_defs Let_def cong: let_weak_cong)

section \<open>The guards of \<open>connect\<close>, and what it does when they pass\<close>

lemma connect_guards:
  "scope_at w c = Some sc \<Longrightarrow> \<not> has_identity (seen_auth sc) \<Longrightarrow>
     connect c w = console_log ''No user or token, skipping WebSocket connection'' w"
  "scope_at w c = Some sc \<Longrightarrow> has_identity (seen_auth sc) \<Longrightarrow> socket_connected w \<Longrightarrow>
     connect c w = console_log ''Socket already connected'' w"
  "scope_at w c = Some sc \<Longrightarrow> has_identity (seen_auth sc) \<Longrightarrow> \<not> socket_connected w \<Longrightarrow>
     isConnecting (seen sc) \<Longrightarrow> connect c w = console_log ''Already connecting...'' w"
  by (simp_all add: connect_def)

lemma connect_proceeds:
  assumes "scope_at w c = Some sc" "has_identity (seen_auth sc)"
    "\<not> socket_connected w" "\<not> isConnecting (seen sc)"
  shows "connect c w = connect_install c sc (new_socket (seen_auth sc))
           (connect_teardown (setConnectionError None (setIsConnecting True w)))"
  using assms by (simp add: connect_def createSocket_def Let_def new_socket_def)

lemma connect_teardown_closes:
  "socketRef w = Some s \<Longrightarrow> s < length (sockets w) \<Longrightarrow> closed (sockets (connect_teardown w) ! s)"
  by (simp add: connect_teardown_def sock_disconnect_def update_socket_def)

lemma connect_opens:
  assumes "scope_at w c = Some sc" "has_identity (seen_auth sc)"
    "\<not> socket_connected w" "\<not> isConnecting (seen sc)"
  shows "socketRef (connect c w) = Some (length (sockets w))"
    "length (sockets (connect c w)) = Suc (length (sockets w))"
    "opened (sockets (connect c w) ! length (sockets w))"
    "\<not> closed (sockets (connect c w) ! length (sockets w))"
    "isConnecting (state (connect c w))"
    "socketRef w = Some s \<Longrightarrow> s < length (sockets w) \<Longrightarrow> closed (sockets (connect c w) ! s)"
proof -
  let ?w1 = "setConnectionError None (setIsConnecting True w)"
  have w1: "length (sockets ?w1) = length (sockets w)" "socketRef ?w1 = socketRef w"
    "isConnecting (state ?w1)"
    by (simp_all add: setConnectionError_def setIsConnecting_def)
  have len: "length (sockets (connect_teardown ?w1)) = length (sockets w)"
    by (simp add: w1)
  show "socketRef (connect c w) = Some (length (sockets w))"
    "length (sockets (connect c w)) = Suc (length (sockets w))"
    "opened (sockets (connect c w) ! length (sockets w))"
    "\<not> closed (sockets (connect c w) ! length (sockets w))"
    "isConnecting (state (connect c w))"
    unfolding connect_proceeds [OF assms] connect_install_eq
    by (simp_all add: len new_socket_def nth_append w1)
  show "closed (sockets (connect c w) ! s)" if "socketRef w = Some s" "s < length (sockets w)"
    unfolding connect_proceeds [OF assms] connect_install_eq
    using that connect_teardown_closes [of ?w1 s]
    by (simp add: len nth_append w1)
qed

section \<open>C3: after \<open>reconnect_failed\<close>\<close>




section \<open>C9: \<open>emit\<close> while connected\<close>




section \<open>C10: a send that throws\<close>

text \<open>
  C10. A transport failure does not leave \<open>emit\<close> as an exception: when the send throws
  inside the \<open>try\<close> block, \<open>emit\<close> returns; it has written to the console and called the
  callback, when there is one, with \<open>{error: message}\<close>; sockets and React state are
  untouched. (\<open>on\<close> and \<open>off\<close> only add and remove listeners, which cannot fail in the
  model: they are total functions.)
\<close>

theorem emit_absorbs_transport_failure:
  assumes "scope_at w e = Some sc" "socketRef w = Some s" "isConnected (seen sc)"
    "s < length (sockets w)" "send_error (sockets w ! s) = Some msg"
  shows "emit_try s name d cb w = Inl (msg, w\<lparr>uuids_drawn := Suc (uuids_drawn w)\<rparr>)
       \<and> emit e name d cb w
           = invoke_callback cb [(''error'', JStr msg)]
               (console_log ''Emit error:'' (w\<lparr>uuids_drawn := Suc (uuids_drawn w)\<rparr>))
       \<and> callback_calls (emit e name d cb w)
           = callback_calls w @ (case cb of None \<Rightarrow> [] | Some k \<Rightarrow> [(k, [(''error'', JStr msg)])])
       \<and> sockets (emit e name d cb w) = sockets w
       \<and> state (emit e name d cb w) = state w"
  using assms
  by (simp add: emit_def emit_send_def emit_try_def sock_emit_def Let_def invoke_callback_def
        console_log_def split: option.splits)

text \<open>Witness for C10: the connection is up and the send throws.\<close>

theorem emit_absorbs_transport_failure_witness:
  "scope_at failing_send 2 = Some (renders failing_send ! 2)
   \<and> socketRef failing_send = Some 0
   \<and> isConnected (seen (renders failing_send ! 2))
   \<and> 0 < length (sockets failing_send)
   \<and> send_error (sockets failing_send ! 0) = Some ''xhr poll error''
   \<and> callback_calls (emit 2 ''generate'' [(''prompt'', JStr ''cat'')] (Some 5) failing_send)
       = [(5, [(''error'', JStr ''xhr poll error'')])]
   \<and> sockets (emit 2 ''generate'' [(''prompt'', JStr ''cat'')] (Some 5) failing_send)
       = sockets failing_send"
proof -
  have h: "scope_at failing_send 2 = Some (renders failing_send ! 2)"
    "socketRef failing_send = Some 0"
    "isConnected (seen (renders failing_send ! 2))"
    "0 < length (sockets failing_send)"
    "send_error (sockets failing_send ! 0) = Some ''xhr poll error''"
    "callback_calls failing_send = []"
    by (simp_all add: model_defs Let_def cong: let_weak_cong)
  note t = emit_absorbs_transport_failure [OF h(1) h(2) h(3) h(4) h(5),
             of "''generate''" "[(''prompt'', JStr ''cat'')]" "Some 5"]
  show ?thesis
    using h t [THEN conjunct2, THEN conjunct2, THEN conjunct1]
      t [THEN conjunct2, THEN conjunct2, THEN conjunct2, THEN conjunct1]
    by simp
qed

section \<open>The health check when \<open>connect\<close> passes its guards\<close>

lemma health_timers_startPingInterval:
  "set (health_timers (startPingInterval w)) \<subseteq> set (health_timers w)"
  by (auto simp: health_timers_def startPingInterval_def Let_def set_timer_def clear_timer_def
        split: option.splits)

lemma connect_cases:
  "timers (connect c w) = timers w
   \<or> (\<exists>sc k. connect c w = connect_install c sc k
                  (connect_teardown (setConnectionError None (setIsConnecting True w))))"
  by (auto simp: connect_def Let_def connect_failed_def console_log_def showNotification_def
        setConnectionError_def setIsConnecting_def split: option.splits)

lemma health_timers_connect: "set (health_timers (connect c w)) \<subseteq> set (health_timers w)"
proof -
  let ?w2 = "connect_teardown (setConnectionError None (setIsConnecting True w))"
  have inst: "set (health_timers (connect_install c sc k v)) \<subseteq> set (health_timers v)" for sc k v
    unfolding connect_install_eq
    using health_timers_startPingInterval
      [of "v\<lparr>sockets := sockets v @ [k\<lparr>listeners := listeners k @ map (\<lambda>n. (n, Core c)) core_events
                    @ registry_listeners v (eventListeners (seen sc)), opened := True\<rparr>],
            socketRef := Some (length (sockets v))\<rparr>"]
    by (simp add: health_timers_def)
  have td: "health_timers ?w2 = health_timers w"
    by (simp add: health_timers_def setConnectionError_def setIsConnecting_def)
  from connect_cases [of c w] show ?thesis
  proof
    assume "timers (connect c w) = timers w"
    then show ?thesis by (simp add: health_timers_def)
  next
    assume "\<exists>sc k. connect c w = connect_install c sc k ?w2"
    then obtain sc k where "connect c w = connect_install c sc k ?w2" by blast
    with inst [of sc k ?w2] td show ?thesis by simp
  qed
qed

lemma health_timers_disconnect: "set (health_timers (disconnect w)) \<subseteq> set (health_timers w)"
  by (auto simp: health_timers_def disconnect_timers)

lemma health_interval_disconnect [simp]: "health_interval (disconnect w) = health_interval w"
  by (simp add: disconnect_def Let_def console_log_def setConnectionError_def
        setIsConnecting_def setIsConnected_def clear_timer_def sock_disconnect_def
        update_socket_def split: option.splits)

lemma renders_disconnect [simp]: "renders (disconnect w) = renders w"
  by (simp add: disconnect_def Let_def console_log_def setConnectionError_def
        setIsConnecting_def setIsConnected_def clear_timer_def sock_disconnect_def
        update_socket_def split: option.splits)

lemma health_timers_auto_effect:
  "set (health_timers (auto_effect sc w)) \<subseteq> set (health_timers w)"
  by (simp add: auto_effect_def health_timers_connect health_timers_disconnect)

lemma health_interval_auto_effect [simp]:
  "health_interval (auto_effect sc w) = health_interval w"
  by (simp add: auto_effect_def connect_frame)

lemma health_cleanup_clears:
  "health_interval w = Some i \<Longrightarrow> \<forall>p\<in>set (health_timers w). fst p = i \<Longrightarrow>
     health_timers (health_cleanup w) = [] \<and> health_interval (health_cleanup w) = None"
  by (auto simp: health_cleanup_def health_timers_def clear_timer_def filter_empty_conv) blast

lemma fold_updaters_frame:
  "renders (fold run_updater us w) = renders w"
  "timers (fold run_updater us w) = timers w"
  "health_interval (fold run_updater us w) = health_interval w"
  "isConnected (state (fold run_updater us w)) = isConnected (state w)"
proof (induction us arbitrary: w)
  case Nil
  {
    case 1 show ?case by simp
  next
    case 2 show ?case by simp
  next
    case 3 show ?case by simp
  next
    case 4 show ?case by simp
  }
next
  case (Cons u us)
  have step: "renders (run_updater u w) = renders w" "timers (run_updater u w) = timers w"
    "health_interval (run_updater u w) = health_interval w"
    "isConnected (state (run_updater u w)) = isConnected (state w)" for w
    by (cases u; simp add: registry_add_def registry_delete_def registry_delete_event_def Let_def
          split: option.splits)+
  {
    case 1 show ?case by (simp add: Cons.IH(1) step)
  next
    case 2 show ?case by (simp add: Cons.IH(2) step)
  next
    case 3 show ?case by (simp add: Cons.IH(3) step)
  next
    case 4 show ?case by (simp add: Cons.IH(4) step)
  }
qed

lemma run_updaters_frame:
  "renders (run_updaters w) = renders w"
  "timers (run_updaters w) = timers w"
  "health_interval (run_updaters w) = health_interval w"
  "isConnected (state (run_updaters w)) = isConnected (state w)"
  by (simp_all add: run_updaters_def fold_updaters_frame)

lemma health_timer_cancelled:
  assumes shown: "renders v \<noteq> []" "isConnected (seen (last (renders v)))"
      and down: "\<not> isConnected (state v)"
      and armed: "health_interval v = Some i" "\<forall>p\<in>set (health_timers v). fst p = i"
  shows "health_timers (rerender v) = [] \<and> health_interval (rerender v) = None"
proof -
  let ?n = "length (renders v)"
  obtain cur where u: "renders (render v) = renders v @ [cur]"
      "isConnected (seen cur) = isConnected (state v)"
    and rest: "health_interval (render v) = health_interval v" "timers (render v) = timers v"
    using shown(1)
    by (cases "renders v")
       (simp_all add: render_def bind_closures_def Let_def run_updaters_frame)
  let ?u = "render v"
  let ?prev = "last (renders v)"
  have n: "length (renders ?u) - 1 = ?n" "?n \<noteq> 0" "last (renders ?u) = cur"
    "renders ?u ! (?n - 1) = ?prev" "renders ?u \<noteq> []"
    using shown(1) by (simp_all add: u nth_append last_conv_nth)
  have run3: "health_deps ?prev \<noteq> health_deps cur"
    using shown(2) down u(2) by (simp add: health_deps_def)
  define run1 where "run1 = (auto_deps ?prev \<noteq> auto_deps cur)"
  define run2 where "run2 = (visibility_deps ?prev \<noteq> visibility_deps cur)"
  define w1 where "w1 = (if run1 then disconnect ?u else ?u)"
  define w2 where "w2 = (if run2 then w1\<lparr>visibility_listener := None\<rparr> else w1)"
  define w3 where "w3 = health_cleanup w2"
  define w4 where "w4 = (if run1 then auto_effect cur w3 else w3)"
  define w5 where "w5 = (if run2 then w4\<lparr>visibility_listener := Some ?n\<rparr> else w4)"
  have eq: "rerender v = w5"
    using n run3 down u(2)
    by (simp add: rerender_def commit_def Let_def health_effect_def
          w5_def w4_def w3_def w2_def w1_def run1_def run2_def)
  have hu: "health_timers ?u = health_timers v" by (simp add: health_timers_def rest)
  have "health_interval w2 = Some i"
    by (simp add: w2_def w1_def rest armed)
  moreover have "\<forall>p\<in>set (health_timers w2). fst p = i"
  proof -
    have "set (health_timers w2) \<subseteq> set (health_timers v)"
    proof (cases run1)
      case True
      then have "health_timers w2 = health_timers (disconnect ?u)"
        by (simp add: w2_def w1_def health_timers_def)
      with health_timers_disconnect [of ?u] hu show ?thesis by simp
    next
      case False
      then have "health_timers w2 = health_timers ?u"
        by (simp add: w2_def w1_def health_timers_def)
      with hu show ?thesis by simp
    qed
    with armed(2) show ?thesis by blast
  qed
  ultimately have w3: "health_timers w3 = []" "health_interval w3 = None"
    using health_cleanup_clears unfolding w3_def by blast+
  have "set (health_timers w4) \<subseteq> set (health_timers w3)"
    using health_timers_auto_effect [of cur w3] by (simp add: w4_def)
  then have w4: "health_timers w4 = []" "health_interval w4 = None"
    using w3 by (simp_all add: w4_def)
  show ?thesis
    unfolding eq using w4 by (simp add: w5_def health_timers_def)
qed

text \<open>The connection is shown as up by the latest render, the health-check interval
  \<open>i\<close> of the effect run in render \<open>r\<close> is the one armed, and more than 60000 ms have
  passed since the \<open>lastActivity\<close> that effect saw. When the interval fires it calls
  \<open>disconnect\<close> and then \<open>connect\<close>, once each. If the \<open>connect\<close> closure has an
  identity and did not capture \<open>isConnecting\<close>, the socket in the ref is torn down and
  exactly one new transport is opened and installed; the next render cleans the effect
  up and leaves no health-check timer.\<close>

lemma health_tick_when_connect_passes:
  assumes armed: "health_interval w = Some i" "map_of (timers w) i = Some (HealthCheck r)"
      and only: "\<forall>p\<in>set (health_timers w). fst p = i"
      and eff: "scope_at w r = Some sc"
      and breach: "60000 < int (now w) - since (lastActivity (seen sc))"
      and shown: "renders w \<noteq> []" "isConnected (seen (last (renders w)))"
      and cl: "scope_at w (connect_cl sc) = Some cs" "has_identity (seen_auth cs)"
              "\<not> isConnecting (seen cs)"
      and cur: "socketRef w = Some s" "s < length (sockets w)"
  shows "(let w' = fire_timer i w in
            w' = connect (connect_cl sc)
                   (disconnect (console_log ''No activity for 60 seconds, reconnecting...'' w))
            \<and> closed (sockets w' ! s)
            \<and> length (sockets w') = Suc (length (sockets w))
            \<and> socketRef w' = Some (length (sockets w))
            \<and> opened (sockets w' ! length (sockets w))
            \<and> \<not> closed (sockets w' ! length (sockets w))
            \<and> health_timers (rerender w') = []
            \<and> health_interval (rerender w') = None)"
proof -
  let ?l = "console_log ''No activity for 60 seconds, reconnecting...'' w"
  let ?d = "disconnect ?l"
  let ?w' = "connect (connect_cl sc) ?d"
  have fire: "fire_timer i w = ?w'"
    using armed(2) eff breach by (simp add: fire_timer_def health_check_def)
  have l: "socketRef ?l = Some s" "sockets ?l = sockets w" "renders ?l = renders w"
    "health_interval ?l = health_interval w" "timers ?l = timers w"
    using cur by (simp_all add: console_log_def)
  have d: "socketRef ?d = None" "length (sockets ?d) = length (sockets w)"
    "closed (sockets ?d ! s)" "renders ?d = renders w" "\<not> isConnected (state ?d)"
    "health_interval ?d = Some i"
    using disconnect_closes [of ?l s] l cur armed(1)
    by (simp_all add: disconnect_state) (simp add: disconnect_def Let_def console_log_def
        setConnectionError_def setIsConnecting_def setIsConnected_def clear_timer_def
        sock_disconnect_def update_socket_def split: option.splits)
  have "scope_at ?d (connect_cl sc) = scope_at w (connect_cl sc)"
    by (simp add: scope_at_def l(3))
  with cl(1) have pre: "scope_at ?d (connect_cl sc) = Some cs" "\<not> socket_connected ?d"
    using d(1) by (simp_all add: socket_connected_def)
  note opens = connect_opens [OF pre(1) cl(2) pre(2) cl(3)]
  have old: "closed (sockets ?w' ! s)"
  proof -
    have "sent (sockets ?w' ! s) = sent (sockets ?d ! s)"
      using cur d(2) by (simp add: connect_sent)
    have "sockets ?w' ! s = sockets ?d ! s"
      unfolding connect_proceeds [OF pre(1) cl(2) pre(2) cl(3)] connect_install_eq
      using cur d(1,2)
      by (simp add: nth_append connect_teardown_def setConnectionError_def setIsConnecting_def)
    with d(3) show ?thesis by simp
  qed
  have v: "renders ?w' \<noteq> []" "isConnected (seen (last (renders ?w')))"
    "\<not> isConnected (state ?w')" "health_interval ?w' = Some i"
    using shown d by (simp_all add: connect_frame)
  have "set (health_timers ?w') \<subseteq> set (health_timers w)"
    using health_timers_connect [of "connect_cl sc" ?d] health_timers_disconnect [of ?l]
    by (simp add: health_timers_def l)
  with only have "\<forall>p\<in>set (health_timers ?w'). fst p = i" by blast
  from health_timer_cancelled [OF v(1,2,3,4) this] old opens(1-4) d(2)
  show ?thesis unfolding Let_def fire by simp
qed

section \<open>C4: a stale connection that is not brought back\<close>

text \<open>
  C4. When the manager is connected and nothing has arrived for more than 60000 ms,
  the health check is to force one cycle: a disconnect followed by a connect.

  The check calls \<open>disconnect\<close> and then \<open>connect\<close>, but the \<open>connect\<close> it holds can be
  one that captured \<open>isConnecting = true\<close> (\<open>isConnecting\<close> is not among the dependencies
  of \<open>connect\<close>, the defect of C5). In \<open>stale_and_stuck\<close> the state, the latest render
  and socket 1 all say "connected", the interval 3 of that render's effect is armed
  and the threshold is exceeded. When the interval fires, the transport is torn down
  and \<open>connect\<close> returns at "Already connecting...": no transport is left, none is
  being opened, and the renders that follow do not open one either.
\<close>

theorem stale_connection_is_dropped_not_cycled:
  "(let w = stale_and_stuck; w' = fire_timer 3 w; v = rerender (rerender w') in
      isConnected (state w) \<and> isConnected (seen (last (renders w)))
      \<and> socketRef w = Some 1 \<and> connected (sockets w ! 1) \<and> \<not> closed (sockets w ! 1)
      \<and> health_interval w = Some 3 \<and> map_of (timers w) 3 = Some (HealthCheck 4)
      \<and> lastActivity (seen (renders w ! 4)) = Some 1000 \<and> now w = 61001
      \<and> connect_cl (renders w ! 4) = 1 \<and> isConnecting (seen (renders w ! 1))
      \<and> length (sockets w') = 2 \<and> socketRef w' = None \<and> live_handles w' = []
      \<and> \<not> isConnected (state w') \<and> \<not> isConnecting (state w')
      \<and> last (console w') = ''Already connecting...''
      \<and> length (sockets v) = 2 \<and> socketRef v = None \<and> live_handles v = []
      \<and> \<not> isConnected (state v) \<and> \<not> isConnecting (state v) \<and> timers v = [])"
  by (simp add: model_defs live_handles_def Let_def cong: let_weak_cong)

end
